theory Spec2Isabelle
  imports Complex_Main "HOL-Library.Sublist" "HOL-Library.Multiset"
begin

section \<open>Conventions of the embedding\<close>

text \<open>
  The UAE telecom recommender is a synchronous rule engine written in Python. Its
  functions are embedded as HOL functions of the same name.

  \<^item> Python \<open>float\<close> values (budget, complexity, risk levels, weights) are read as
    exact reals; \<open>int\<close> values stay integers and are converted where Python's true
    division \<open>/\<close> converts them.
  \<^item> Python \<open>str\<close> is \<open>string\<close>; \<open>kw in s\<close> on strings is \<^const>\<open>sublist\<close>;
    \<open>s.lower()\<close> is \<open>lower\<close>, which maps the ASCII capitals to small letters.
  \<^item> A \<open>dict\<close> is an association list in insertion order with distinct keys;
    \<open>d[k] = v\<close> is \<open>dict_set\<close>, which keeps the position of a key already present.
  \<^item> \<open>list.sort(key=..., reverse=True)\<close> is a stable descending sort; with totally
    ordered keys its result is determined by that property, and \<open>sort_reverse\<close>
    (insertion from the right) computes it.
  \<^item> A raised exception is the \<open>Inl\<close> branch of a sum.
  \<^item> The clock readings \<open>timestamp\<close> and \<open>generated_at\<close> are left out of the
    records; nothing else reads them. The message printed when a scorer fails is not
    modelled either.
  \<^item> The calls of a sector's \<open>assess_risk\<close> are recorded in a trace (the list of the
    sector ids assessed, in call order) that the orchestrating functions pass along.
\<close>

section \<open>Strings, slices, dictionaries, sorting\<close>

definition lower_char :: "char \<Rightarrow> char" where
  "lower_char c =
     (if 65 \<le> (of_char c :: nat) \<and> (of_char c :: nat) \<le> 90
      then (case c of Char b0 b1 b2 b3 b4 b5 b6 b7 \<Rightarrow> Char b0 b1 b2 b3 b4 True b6 b7)
      else c)"

definition lower :: "string \<Rightarrow> string" where
  "lower s = map lower_char s"

text \<open>\<open>s.replace('_', ' ')\<close>\<close>

definition replace_underscore :: "string \<Rightarrow> string" where
  "replace_underscore s = map (\<lambda>c. if c = CHR ''_'' then CHR '' '' else c) s"

text \<open>\<open>sep.join(xs)\<close>\<close>

fun join :: "string \<Rightarrow> string list \<Rightarrow> string" where
  "join sep [] = []"
| "join sep [x] = x"
| "join sep (x # y # ys) = x @ sep @ join sep (y # ys)"

text \<open>\<open>xs[:n]\<close> for a Python integer \<open>n\<close>: a negative \<open>n\<close> counts from the end.\<close>

definition slice_to :: "'a list \<Rightarrow> int \<Rightarrow> 'a list" where
  "slice_to xs n =
     (if 0 \<le> n then take (nat n) xs else take (nat (int (length xs) + n)) xs)"

text \<open>\<open>d[k] = v\<close> on an insertion-ordered dictionary.\<close>

fun dict_set :: "'k \<Rightarrow> 'v \<Rightarrow> ('k \<times> 'v) list \<Rightarrow> ('k \<times> 'v) list" where
  "dict_set k v [] = [(k, v)]"
| "dict_set k v ((k', v') # d) =
     (if k = k' then (k, v) # d else (k', v') # dict_set k v d)"

fun insort_reverse :: "('a \<Rightarrow> 'k::linorder) \<Rightarrow> 'a \<Rightarrow> 'a list \<Rightarrow> 'a list" where
  "insort_reverse f x [] = [x]"
| "insort_reverse f x (y # ys) =
     (if f y \<le> f x then x # y # ys else y # insort_reverse f x ys)"

definition sort_reverse :: "('a \<Rightarrow> 'k::linorder) \<Rightarrow> 'a list \<Rightarrow> 'a list" where
  "sort_reverse f xs = foldr (insort_reverse f) xs []"

section \<open>Data model (\<open>sectors/base_sector.py\<close>)\<close>

record ProjectData =
  project_id :: string
  sector_id :: string
  description :: string
  budget :: real
  timeline_days :: int
  complexity_score :: real
  stakeholders :: "string list"
  technologies :: "string list"
  dependencies :: "string list"
  historical_risks :: "string list option"

record RiskAssessment =
  sector_id :: string
  risk_level :: real
  risk_factors :: "string list"
  mitigation_strategies :: "string list"
  confidence :: real

datatype error =
    ValueError string
  | WeightSumError real
  | Exception string

text \<open>
  \<open>WeightSumError t\<close> stands for the \<open>ValueError\<close> of \<open>validate_config\<close> whose message
  quotes the weight total \<open>t\<close>; \<open>Exception\<close> is any exception of class \<open>Exception\<close>
  raised inside a sector scorer.
\<close>

text \<open>One entry of the \<open>sectors\<close> section of the configuration file.\<close>

record SectorConfig =
  cfg_name :: string
  cfg_description :: string
  cfg_risk_factors :: "string list"
  cfg_weight :: real

type_synonym sectors_config = "(string \<times> SectorConfig) list"

text \<open>
  A sector object as the risk manager uses it: its display name, its weight and its
  two methods. \<open>assess_risk\<close> may raise.
\<close>

record Sector =
  name :: string
  weight :: real
  assess_risk :: "ProjectData \<Rightarrow> error + RiskAssessment"
  get_recommendations :: "RiskAssessment \<Rightarrow> string list"

type_synonym sectors = "(string \<times> Sector) list"
type_synonym assessments = "(string \<times> RiskAssessment) list"
type_synonym trace = "string list"

section \<open>Shared helpers of \<open>BaseSector\<close>\<close>

text \<open>\<open>np.clip(x, lo, hi)\<close>\<close>

definition clip :: "real \<Rightarrow> real \<Rightarrow> real \<Rightarrow> real" where
  "clip x lo hi = min (max x lo) hi"

definition calculate_base_risk_score :: "ProjectData \<Rightarrow> real" where
  "calculate_base_risk_score project_data =
     (let budget_factor = min (budget project_data / 1000000) 1.0;
          timeline_factor = min (real_of_int (timeline_days project_data) / 365) 1.0;
          complexity_factor = complexity_score project_data;
          dependency_factor = min (real (length (dependencies project_data)) / 10) 1.0;
          base_score = budget_factor * 0.25 + timeline_factor * 0.25
                       + complexity_factor * 0.35 + dependency_factor * 0.15
      in clip base_score 0.0 1.0)"

definition get_common_mitigation_strategies :: "string list" where
  "get_common_mitigation_strategies =
     [''Regular risk monitoring and assessment'',
      ''Stakeholder communication and alignment'',
      ''Contingency planning and backup procedures'',
      ''Vendor and supplier diversification'',
      ''Staff training and skill development'',
      ''Documentation and knowledge management'',
      ''Quality assurance and testing protocols'',
      ''Budget reserves for unexpected costs'',
      ''Timeline buffers for critical activities'',
      ''Compliance monitoring and reporting'']"

text \<open>Truth value of an optional list: \<open>None\<close> and \<open>[]\<close> are false.\<close>

fun truthy :: "'a list option \<Rightarrow> bool" where
  "truthy None = False"
| "truthy (Some xs) = (xs \<noteq> [])"

definition calculate_confidence_score :: "ProjectData \<Rightarrow> real" where
  "calculate_confidence_score project_data =
     (let data_completeness = 0.0;
          data_completeness = (if description project_data \<noteq> []
                               then data_completeness + 0.2 else data_completeness);
          data_completeness = (if budget project_data > 0
                               then data_completeness + 0.2 else data_completeness);
          data_completeness = (if timeline_days project_data > 0
                               then data_completeness + 0.2 else data_completeness);
          data_completeness = (if technologies project_data \<noteq> []
                               then data_completeness + 0.2 else data_completeness);
          data_completeness = (if truthy (historical_risks project_data)
                               then data_completeness + 0.2 else data_completeness)
      in data_completeness)"

section \<open>Network infrastructure sector (\<open>sectors/network_infrastructure.py\<close>)\<close>

definition infrastructure_components :: "(string \<times> real) list" where
  "infrastructure_components =
     [(''fiber_optic'', 0.3), (''cellular_towers'', 0.4), (''data_centers'', 0.5),
      (''switches_routers'', 0.4), (''transmission_equipment'', 0.3),
      (''power_systems'', 0.6), (''cooling_systems'', 0.4), (''security_systems'', 0.3)]"

definition technology_age_risks :: "string \<rightharpoonup> real" where
  "technology_age_risks =
     [''legacy'' \<mapsto> 0.8, ''mature'' \<mapsto> 0.4, ''current'' \<mapsto> 0.2, ''emerging'' \<mapsto> 0.6]"

definition network_assess_infrastructure_risk :: "ProjectData \<Rightarrow> real" where
  "network_assess_infrastructure_risk project_data =
     (let risk_score =
            fold (\<lambda>tech risk_score.
                    let tech_lower = lower tech
                    in fold (\<lambda>(component, risk_multiplier) risk_score.
                               if sublist (replace_underscore component) tech_lower
                                  \<or> sublist component tech_lower
                               then risk_score + risk_multiplier else risk_score)
                            infrastructure_components risk_score)
                 (technologies project_data) 0.0;
          complexity_multiplier = 1.0 + complexity_score project_data * 0.5;
          risk_score = risk_score * complexity_multiplier
      in min (risk_score / real (length infrastructure_components)) 1.0)"

definition network_assess_environmental_risk :: "ProjectData \<Rightarrow> real" where
  "network_assess_environmental_risk project_data =
     (let base_environmental_risk = 0.4;
          timeline_factor = min (real_of_int (timeline_days project_data) / 365) 2.0;
          outdoor_keywords = [''tower'', ''outdoor'', ''external'', ''field'', ''installation''];
          outdoor_risk =
            fold (\<lambda>keyword outdoor_risk.
                    if sublist keyword (lower (description project_data))
                    then outdoor_risk + 0.2 else outdoor_risk)
                 outdoor_keywords 0.0;
          environmental_risk = base_environmental_risk + timeline_factor * 0.1 + outdoor_risk
      in min environmental_risk 1.0)"

definition network_assess_technology_risk :: "ProjectData \<Rightarrow> real" where
  "network_assess_technology_risk project_data =
     (let technology_risk =
            fold (\<lambda>tech technology_risk.
                    let tech_lower = lower tech
                    in if list_ex (\<lambda>word. sublist word tech_lower)
                            [''legacy'', ''old'', ''deprecated'']
                       then technology_risk + the (technology_age_risks ''legacy'')
                       else if list_ex (\<lambda>word. sublist word tech_lower)
                            [''new'', ''emerging'', ''beta'', ''cutting-edge'']
                       then technology_risk + the (technology_age_risks ''emerging'')
                       else if list_ex (\<lambda>word. sublist word tech_lower)
                            [''5g'', ''ai'', ''iot'', ''edge'']
                       then technology_risk + the (technology_age_risks ''emerging'')
                       else technology_risk + the (technology_age_risks ''current''))
                 (technologies project_data) 0.0
      in min (technology_risk / real (max (length (technologies project_data)) 1)) 1.0)"

definition network_assess_capacity_risk :: "ProjectData \<Rightarrow> real" where
  "network_assess_capacity_risk project_data =
     (let capacity_risk = 0.3;
          capacity_risk = (if budget project_data > 5000000
                           then capacity_risk + 0.2 else capacity_risk);
          capacity_risk = (if length (dependencies project_data) > 5
                           then capacity_risk + 0.3 else capacity_risk);
          capacity_keywords = [''scaling'', ''expansion'', ''upgrade'', ''capacity'', ''bandwidth''];
          capacity_risk =
            fold (\<lambda>keyword capacity_risk.
                    if sublist keyword (lower (description project_data))
                    then capacity_risk + 0.1 else capacity_risk)
                 capacity_keywords capacity_risk
      in min capacity_risk 1.0)"

definition network_identify_active_risk_factors ::
    "real \<Rightarrow> real \<Rightarrow> real \<Rightarrow> real \<Rightarrow> string list" where
  "network_identify_active_risk_factors infra_risk env_risk tech_risk capacity_risk =
     (if infra_risk > 0.5 then [''Equipment failure''] else [])
     @ (if env_risk > 0.4 then [''Infrastructure damage''] else [])
     @ (if tech_risk > 0.5 then [''Technology obsolescence''] else [])
     @ (if capacity_risk > 0.4 then [''Capacity limitations''] else [])
     @ [''Network congestion'']"

definition network_get_mitigation_strategies :: "string list \<Rightarrow> string list" where
  "network_get_mitigation_strategies risk_factors_arg =
     (let strategies = get_common_mitigation_strategies;
          network_strategies =
            [''Implement redundant network paths and equipment'',
             ''Regular maintenance and equipment health monitoring'',
             ''Environmental protection systems for outdoor equipment'',
             ''Capacity planning and traffic management'',
             ''Technology refresh cycles and upgrade planning'',
             ''Network performance monitoring and alerting'',
             ''Emergency response procedures for infrastructure failures'',
             ''Backup power systems and uninterruptible power supplies'',
             ''Climate control systems for equipment rooms'',
             ''Network security hardening and access controls''];
          strategies = strategies @ network_strategies
      in slice_to strategies 10)"

definition network_assess_risk :: "string \<Rightarrow> real \<Rightarrow> ProjectData \<Rightarrow> RiskAssessment" where
  "network_assess_risk self_sector_id self_weight project_data =
     (let base_risk = calculate_base_risk_score project_data;
          infrastructure_risk = network_assess_infrastructure_risk project_data;
          environmental_risk = network_assess_environmental_risk project_data;
          technology_risk = network_assess_technology_risk project_data;
          capacity_risk = network_assess_capacity_risk project_data;
          total_risk = base_risk * 0.3 + infrastructure_risk * 0.25
                       + environmental_risk * 0.2 + technology_risk * 0.15
                       + capacity_risk * 0.1;
          weighted_risk = min (total_risk * self_weight * 10) 1.0;
          active_risk_factors =
            network_identify_active_risk_factors
              infrastructure_risk environmental_risk technology_risk capacity_risk;
          mitigation = network_get_mitigation_strategies active_risk_factors;
          conf = calculate_confidence_score project_data
      in \<lparr>sector_id = self_sector_id, risk_level = weighted_risk,
          risk_factors = active_risk_factors, mitigation_strategies = mitigation,
          confidence = conf\<rparr>)"

definition network_get_recommendations :: "RiskAssessment \<Rightarrow> string list" where
  "network_get_recommendations risk_assessment =
     (if risk_level risk_assessment > 0.7 then
        [''Conduct immediate infrastructure vulnerability assessment'',
         ''Implement comprehensive disaster recovery procedures'',
         ''Establish 24/7 network operations center monitoring'']
      else if risk_level risk_assessment > 0.5 then
        [''Schedule preventive maintenance for critical equipment'',
         ''Review and update capacity planning models'',
         ''Implement enhanced environmental monitoring'']
      else
        [''Continue regular monitoring and maintenance schedules'',
         ''Plan for future technology upgrades'',
         ''Maintain current redundancy levels''])"

section \<open>Cybersecurity sector (\<open>sectors/cybersecurity.py\<close>)\<close>

definition security_controls :: "(string \<times> real) list" where
  "security_controls =
     [(''firewall'', 0.3), (''intrusion_detection'', 0.4), (''encryption'', 0.5),
      (''multi_factor_authentication'', 0.4), (''security_training'', 0.3),
      (''vulnerability_management'', 0.5), (''backup_systems'', 0.4),
      (''incident_response'', 0.4), (''access_controls'', 0.4),
      (''security_monitoring'', 0.5)]"

definition technology_risks :: "(string \<times> real) list" where
  "technology_risks =
     [(''cloud_services'', 0.4), (''iot_devices'', 0.6), (''mobile_apps'', 0.5),
      (''apis'', 0.5), (''third_party_integrations'', 0.6), (''legacy_systems'', 0.8)]"

definition cyber_assess_threat_landscape :: "ProjectData \<Rightarrow> real" where
  "cyber_assess_threat_landscape project_data =
     (let threat_score = 0.5;
          high_risk_keywords = [''internet-facing'', ''public'', ''external'', ''customer-facing''];
          threat_score =
            fold (\<lambda>keyword threat_score.
                    if sublist keyword (lower (description project_data))
                    then threat_score + 0.2 else threat_score)
                 high_risk_keywords threat_score;
          threat_score = (if budget project_data > 10000000 then threat_score + 0.2
                          else if budget project_data > 5000000 then threat_score + 0.1
                          else threat_score);
          threat_score = (if timeline_days project_data > 365
                          then threat_score + 0.1 else threat_score)
      in min threat_score 1.0)"

definition cyber_assess_compliance_risk :: "ProjectData \<Rightarrow> real" where
  "cyber_assess_compliance_risk project_data =
     (let compliance_risk = 0.6;
          compliance_keywords =
            [''personal data'', ''customer information'', ''financial'',
             ''critical infrastructure''];
          compliance_risk =
            fold (\<lambda>keyword compliance_risk.
                    if sublist keyword (lower (description project_data))
                    then compliance_risk + 0.2 else compliance_risk)
                 compliance_keywords compliance_risk;
          international_keywords = [''international'', ''cross-border'', ''global'', ''offshore''];
          compliance_risk =
            fold (\<lambda>keyword compliance_risk.
                    if sublist keyword (lower (description project_data))
                    then compliance_risk + 0.3 else compliance_risk)
                 international_keywords compliance_risk
      in min compliance_risk 1.0)"

definition cyber_assess_technology_security_risk :: "ProjectData \<Rightarrow> real" where
  "cyber_assess_technology_security_risk project_data =
     (let tech_risk =
            fold (\<lambda>tech tech_risk.
                    let tech_lower = lower tech
                    in fold (\<lambda>(risk_tech, risk_level_of_tech) tech_risk.
                               if sublist (replace_underscore risk_tech) tech_lower
                                  \<or> sublist risk_tech tech_lower
                               then tech_risk + risk_level_of_tech else tech_risk)
                            technology_risks tech_risk)
                 (technologies project_data) 0.0;
          emerging_keywords = [''ai'', ''machine learning'', ''blockchain'', ''5g'', ''edge computing''];
          tech_risk =
            fold (\<lambda>keyword tech_risk.
                    if list_ex (\<lambda>tech. sublist keyword (lower tech)) (technologies project_data)
                    then tech_risk + 0.4 else tech_risk)
                 emerging_keywords tech_risk
      in min (tech_risk / real (max (length (technologies project_data)) 1)) 1.0)"

definition cyber_assess_data_protection_risk :: "ProjectData \<Rightarrow> real" where
  "cyber_assess_data_protection_risk project_data =
     (let data_risk = 0.3;
          data_keywords =
            [''database'', ''customer data'', ''personal information'', ''analytics'',
             ''reporting''];
          data_risk =
            fold (\<lambda>keyword data_risk.
                    if sublist keyword (lower (description project_data))
                    then data_risk + 0.2 else data_risk)
                 data_keywords data_risk;
          data_risk = (if length (stakeholders project_data) > 10
                       then data_risk + 0.2 else data_risk);
          data_risk = (if length (dependencies project_data) > 5
                       then data_risk + 0.1 else data_risk)
      in min data_risk 1.0)"

definition cyber_assess_security_controls :: "ProjectData \<Rightarrow> real" where
  "cyber_assess_security_controls project_data =
     (let description_lower = lower (description project_data);
          (controls_score, controls_found) =
            fold (\<lambda>tech acc.
                    let tech_lower = lower tech
                    in fold (\<lambda>(control, effectiveness) (controls_score, controls_found).
                               let control_terms = replace_underscore control
                               in if sublist control_terms description_lower
                                     \<or> sublist control_terms tech_lower
                                     \<or> sublist control tech_lower
                                  then (controls_score + effectiveness, controls_found + 1)
                                  else (controls_score, controls_found))
                            security_controls acc)
                 (technologies project_data) (0.0, 0::nat)
      in if controls_found > 0 then min (controls_score / real controls_found) 1.0
         else 0.1)"

text \<open>
  \<open>list(set(active_factors))\<close> lists the distinct factors in the iteration order of a
  Python set, which the source does not fix; it is the parameter \<open>set_list\<close>.
\<close>

definition cyber_identify_active_risk_factors ::
    "(string list \<Rightarrow> string list) \<Rightarrow> real \<Rightarrow> real \<Rightarrow> real \<Rightarrow> real \<Rightarrow> string list" where
  "cyber_identify_active_risk_factors set_list threat_risk compliance_risk tech_risk data_risk =
     set_list
       ((if threat_risk > 0.6 then [''Cyber attacks'', ''System vulnerabilities''] else [])
        @ (if compliance_risk > 0.6 then [''Compliance violations''] else [])
        @ (if tech_risk > 0.5 then [''System vulnerabilities''] else [])
        @ (if data_risk > 0.5 then [''Data breaches''] else [])
        @ [''Insider threats''])"

definition cyber_get_mitigation_strategies :: "string list \<Rightarrow> string list" where
  "cyber_get_mitigation_strategies risk_factors_arg =
     (let strategies = get_common_mitigation_strategies;
          cyber_strategies =
            [''Implement multi-layered security controls (Defense in Depth)'',
             ''Conduct regular security assessments and penetration testing'',
             ''Establish Security Operations Center (SOC) monitoring'',
             ''Deploy advanced threat detection and response systems'',
             ''Implement zero-trust network architecture'',
             ''Conduct regular security awareness training for all staff'',
             ''Establish incident response and business continuity plans'',
             ''Implement data encryption at rest and in transit'',
             ''Deploy endpoint detection and response (EDR) solutions'',
             ''Maintain up-to-date vulnerability management program'',
             ''Implement privileged access management controls'',
             ''Establish secure software development lifecycle (SDLC)'',
             ''Deploy network segmentation and micro-segmentation'',
             ''Implement continuous compliance monitoring'',
             ''Establish threat intelligence and information sharing''];
          strategies = strategies @ cyber_strategies
      in slice_to strategies 12)"

definition cyber_assess_risk ::
    "(string list \<Rightarrow> string list) \<Rightarrow> string \<Rightarrow> real \<Rightarrow> ProjectData \<Rightarrow> RiskAssessment" where
  "cyber_assess_risk set_list self_sector_id self_weight project_data =
     (let base_risk = calculate_base_risk_score project_data;
          threat_risk = cyber_assess_threat_landscape project_data;
          compliance_risk = cyber_assess_compliance_risk project_data;
          technology_risk = cyber_assess_technology_security_risk project_data;
          data_risk = cyber_assess_data_protection_risk project_data;
          controls_effectiveness = cyber_assess_security_controls project_data;
          total_risk = base_risk * 0.2 + threat_risk * 0.25 + compliance_risk * 0.2
                       + technology_risk * 0.2 + data_risk * 0.15;
          adjusted_risk = total_risk * (1.0 - controls_effectiveness * 0.5);
          weighted_risk = min (adjusted_risk * self_weight * 10) 1.0;
          active_risk_factors =
            cyber_identify_active_risk_factors set_list
              threat_risk compliance_risk technology_risk data_risk;
          mitigation = cyber_get_mitigation_strategies active_risk_factors;
          conf = calculate_confidence_score project_data
      in \<lparr>sector_id = self_sector_id, risk_level = weighted_risk,
          risk_factors = active_risk_factors, mitigation_strategies = mitigation,
          confidence = conf\<rparr>)"

definition cyber_get_recommendations :: "RiskAssessment \<Rightarrow> string list" where
  "cyber_get_recommendations risk_assessment =
     slice_to
       (if risk_level risk_assessment > 0.8 then
          [''URGENT: Conduct immediate security risk assessment'',
           ''Implement emergency incident response procedures'',
           ''Deploy advanced security monitoring and alerting'',
           ''Engage external cybersecurity expertise'',
           ''Review and strengthen access controls immediately'']
        else if risk_level risk_assessment > 0.6 then
          [''Conduct comprehensive security audit'',
           ''Implement additional security controls'',
           ''Enhance security monitoring capabilities'',
           ''Provide targeted security training'',
           ''Review compliance with UAE regulations'']
        else if risk_level risk_assessment > 0.4 then
          [''Maintain current security posture'',
           ''Schedule regular security reviews'',
           ''Update security policies and procedures'',
           ''Continue security awareness programs'']
        else
          [''Continue baseline security practices'',
           ''Monitor for emerging threats'',
           ''Maintain security documentation''])
       8"

section \<open>Regulatory compliance sector (\<open>sectors/regulatory_compliance.py\<close>)\<close>

text \<open>Each framework: its id, its \<open>risk_level\<close> and its \<open>keywords\<close>.\<close>

definition regulatory_frameworks :: "(string \<times> real \<times> string list) list" where
  "regulatory_frameworks =
     [(''tra_telecom_regulations'', 0.8,
         [''telecom'', ''telecommunication'', ''network'', ''spectrum'', ''licensing'']),
      (''uae_cyber_security_law'', 0.9,
         [''cybersecurity'', ''information security'', ''data protection'', ''cyber'']),
      (''uae_data_protection_law'', 0.8,
         [''personal data'', ''privacy'', ''data processing'', ''customer information'']),
      (''consumer_protection_law'', 0.6,
         [''consumer'', ''customer service'', ''billing'', ''complaints'']),
      (''federal_law_competition'', 0.5,
         [''competition'', ''market'', ''pricing'', ''anti-monopoly'']),
      (''anti_money_laundering'', 0.7,
         [''aml'', ''financial'', ''payment'', ''money laundering'', ''sanctions'']),
      (''critical_infrastructure'', 0.9,
         [''critical infrastructure'', ''national security'', ''essential services''])]"

definition regulatory_assess_regulatory_framework_risk :: "ProjectData \<Rightarrow> real" where
  "regulatory_assess_regulatory_framework_risk project_data =
     (let description_lower = lower (description project_data);
          (framework_risk, applicable_frameworks) =
            fold (\<lambda>(framework, framework_risk_level, keywords)
                    (framework_risk, applicable_frameworks).
                    let framework_applies =
                          list_ex (\<lambda>keyword. sublist keyword description_lower) keywords
                    in if framework_applies
                       then (framework_risk + framework_risk_level, applicable_frameworks + 1)
                       else (framework_risk, applicable_frameworks))
                 regulatory_frameworks (0.0, 0::nat);
          framework_risk = (if budget project_data > 50000000 then framework_risk + 0.3
                            else if budget project_data > 20000000 then framework_risk + 0.2
                            else framework_risk);
          framework_risk = (if length (stakeholders project_data) > 15
                            then framework_risk + 0.2 else framework_risk)
      in min (framework_risk / real (max applicable_frameworks 1)) 1.0)"

definition regulatory_assess_license_compliance_risk :: "ProjectData \<Rightarrow> real" where
  "regulatory_assess_license_compliance_risk project_data =
     (let license_risk = 0.4;
          license_keywords =
            [''new service'', ''service launch'', ''spectrum'', ''frequency'',
             ''infrastructure deployment'', ''network expansion'', ''interconnection''];
          license_risk =
            fold (\<lambda>keyword license_risk.
                    if sublist keyword (lower (description project_data))
                    then license_risk + 0.3 else license_risk)
                 license_keywords license_risk;
          international_keywords =
            [''international'', ''cross-border'', ''submarine cable'', ''satellite''];
          license_risk =
            fold (\<lambda>keyword license_risk.
                    if sublist keyword (lower (description project_data))
                    then license_risk + 0.4 else license_risk)
                 international_keywords license_risk;
          license_risk = (if timeline_days project_data > 730
                          then license_risk + 0.2 else license_risk)
      in min license_risk 1.0)"

definition regulatory_assess_data_protection_risk :: "ProjectData \<Rightarrow> real" where
  "regulatory_assess_data_protection_risk project_data =
     (let data_risk = 0.3;
          data_keywords =
            [''customer data'', ''personal information'', ''data collection'',
             ''data processing'', ''analytics'', ''artificial intelligence'',
             ''machine learning'', ''profiling'', ''behavioral analysis''];
          data_risk =
            fold (\<lambda>keyword data_risk.
                    if sublist keyword (lower (description project_data))
                    then data_risk + 0.2 else data_risk)
                 data_keywords data_risk;
          customer_keywords = [''customer portal'', ''mobile app'', ''web service'', ''self-service''];
          data_risk =
            fold (\<lambda>keyword data_risk.
                    if sublist keyword (lower (description project_data))
                    then data_risk + 0.3 else data_risk)
                 customer_keywords data_risk;
          data_risk =
            (if list_ex (\<lambda>dep. sublist ''international'' (lower dep)
                                \<or> sublist ''offshore'' (lower dep))
                        (dependencies project_data)
             then data_risk + 0.4 else data_risk)
      in min data_risk 1.0)"

definition regulatory_assess_audit_readiness_risk :: "ProjectData \<Rightarrow> real" where
  "regulatory_assess_audit_readiness_risk project_data =
     (let audit_risk = 0.5;
          audit_risk = (if complexity_score project_data > 0.7
                        then audit_risk + 0.2 else audit_risk);
          audit_risk = (if length (dependencies project_data) > 8
                        then audit_risk + 0.2 else audit_risk);
          emerging_tech_keywords = [''ai'', ''5g'', ''iot'', ''blockchain'', ''edge computing''];
          audit_risk =
            fold (\<lambda>tech audit_risk.
                    if list_ex (\<lambda>keyword. sublist keyword (lower tech)) emerging_tech_keywords
                    then audit_risk + 0.1 else audit_risk)
                 (technologies project_data) audit_risk
      in min audit_risk 1.0)"

definition regulatory_assess_policy_compliance_risk :: "ProjectData \<Rightarrow> real" where
  "regulatory_assess_policy_compliance_risk project_data =
     (let policy_risk = 0.4;
          policy_risk = (if length (stakeholders project_data) > 10
                         then policy_risk + 0.2 else policy_risk);
          policy_risk =
            (case historical_risks project_data of
               None \<Rightarrow> policy_risk
             | Some hr \<Rightarrow>
                 if hr \<noteq> [] then
                   (let compliance_history =
                          filter (\<lambda>risk. sublist ''compliance'' (lower risk)
                                          \<or> sublist ''policy'' (lower risk)) hr
                    in if compliance_history \<noteq> [] then policy_risk + 0.3 else policy_risk)
                 else policy_risk)
      in min policy_risk 1.0)"

definition regulatory_identify_active_risk_factors ::
    "real \<Rightarrow> real \<Rightarrow> real \<Rightarrow> real \<Rightarrow> string list" where
  "regulatory_identify_active_risk_factors framework_risk license_risk data_risk audit_risk =
     (if framework_risk > 0.6 then [''Regulatory violations''] else [])
     @ (if license_risk > 0.5 then [''License compliance''] else [])
     @ (if data_risk > 0.5 then [''Data protection breaches''] else [])
     @ (if audit_risk > 0.5 then [''Audit failures''] else [])
     @ [''Policy non-compliance'']"

definition regulatory_get_mitigation_strategies :: "string list \<Rightarrow> string list" where
  "regulatory_get_mitigation_strategies risk_factors_arg =
     (let strategies = get_common_mitigation_strategies;
          compliance_strategies =
            [''Establish dedicated compliance officer and team'',
             ''Conduct regular regulatory impact assessments'',
             ''Implement compliance monitoring and reporting systems'',
             ''Maintain current regulatory knowledge and tracking'',
             ''Establish relationships with regulatory authorities'',
             ''Conduct pre-launch compliance reviews'',
             ''Implement data protection impact assessments (DPIA)'',
             ''Establish audit trail and documentation procedures'',
             ''Create compliance training programs for staff'',
             ''Implement automated compliance monitoring tools'',
             ''Establish legal review processes for new initiatives'',
             ''Maintain compliance risk register and mitigation plans'',
             ''Conduct regular internal compliance audits'',
             ''Establish incident response procedures for compliance breaches'',
             ''Implement change management for regulatory updates''];
          strategies = strategies @ compliance_strategies
      in slice_to strategies 12)"

definition regulatory_assess_risk :: "string \<Rightarrow> real \<Rightarrow> ProjectData \<Rightarrow> RiskAssessment" where
  "regulatory_assess_risk self_sector_id self_weight project_data =
     (let base_risk = calculate_base_risk_score project_data;
          regulatory_framework_risk = regulatory_assess_regulatory_framework_risk project_data;
          license_compliance_risk = regulatory_assess_license_compliance_risk project_data;
          data_protection_risk = regulatory_assess_data_protection_risk project_data;
          audit_risk = regulatory_assess_audit_readiness_risk project_data;
          policy_compliance_risk = regulatory_assess_policy_compliance_risk project_data;
          total_risk = base_risk * 0.15 + regulatory_framework_risk * 0.25
                       + license_compliance_risk * 0.2 + data_protection_risk * 0.2
                       + audit_risk * 0.1 + policy_compliance_risk * 0.1;
          weighted_risk = min (total_risk * self_weight * 10) 1.0;
          active_risk_factors =
            regulatory_identify_active_risk_factors
              regulatory_framework_risk license_compliance_risk data_protection_risk audit_risk;
          mitigation = regulatory_get_mitigation_strategies active_risk_factors;
          conf = calculate_confidence_score project_data
      in \<lparr>sector_id = self_sector_id, risk_level = weighted_risk,
          risk_factors = active_risk_factors, mitigation_strategies = mitigation,
          confidence = conf\<rparr>)"

definition regulatory_get_recommendations :: "RiskAssessment \<Rightarrow> string list" where
  "regulatory_get_recommendations risk_assessment =
     slice_to
       (if risk_level risk_assessment > 0.8 then
          [''URGENT: Conduct immediate compliance risk assessment'',
           ''Engage legal counsel for regulatory review'',
           ''Implement emergency compliance monitoring'',
           ''Contact relevant regulatory authorities for guidance'',
           ''Suspend project activities until compliance confirmed'']
        else if risk_level risk_assessment > 0.6 then
          [''Conduct comprehensive regulatory compliance review'',
           ''Engage compliance consultants for specialized expertise'',
           ''Implement enhanced compliance monitoring'',
           ''Review and update compliance policies and procedures'',
           ''Provide compliance training for project team'']
        else if risk_level risk_assessment > 0.4 then
          [''Schedule regular compliance reviews'',
           ''Update compliance documentation'',
           ''Monitor regulatory changes and updates'',
           ''Maintain current compliance certifications'']
        else
          [''Continue baseline compliance activities'',
           ''Monitor for regulatory updates'',
           ''Maintain compliance documentation''])
       6"

section \<open>Configuration (\<open>config/config_manager.py\<close>)\<close>

text \<open>
  The configuration file itself is not part of the sources; its \<open>sectors\<close> section is
  a parameter of type \<open>sectors_config\<close>. The checks of \<open>validate_config\<close> that a section
  or a field is present are carried by the types; the check of the weights remains.
\<close>

definition get_sector_weights :: "sectors_config \<Rightarrow> (string \<times> real) list" where
  "get_sector_weights sector_configs =
     map (\<lambda>(sid, config). (sid, cfg_weight config)) sector_configs"

definition validate_config :: "sectors_config \<Rightarrow> error + bool" where
  "validate_config sector_configs =
     (let total_weight = sum_list (map snd (get_sector_weights sector_configs))
      in if \<not> (0.95 \<le> total_weight \<and> total_weight \<le> 1.05)
         then Inl (WeightSumError total_weight)
         else Inr True)"

section \<open>Risk manager (\<open>core/risk_manager.py\<close>)\<close>

definition placeholder_assess_risk ::
    "string \<Rightarrow> string \<Rightarrow> string list \<Rightarrow> ProjectData \<Rightarrow> RiskAssessment" where
  "placeholder_assess_risk self_sector_id self_name self_risk_factors project_data =
     (let base_risk = min (complexity_score project_data * 0.8) 1.0
      in \<lparr>sector_id = self_sector_id, risk_level = base_risk,
          risk_factors = slice_to self_risk_factors 3,
          mitigation_strategies =
            [''Conduct '' @ lower self_name @ '' risk assessment'',
             ''Implement '' @ lower self_name @ '' best practices'',
             ''Monitor '' @ lower self_name @ '' key metrics''],
          confidence = 0.5\<rparr>)"

definition placeholder_get_recommendations :: "string \<Rightarrow> RiskAssessment \<Rightarrow> string list" where
  "placeholder_get_recommendations self_name risk_assessment =
     [''Develop comprehensive '' @ lower self_name @ '' strategy'',
      ''Implement '' @ lower self_name @ '' monitoring'',
      ''Regular '' @ lower self_name @ '' reviews'']"

definition create_placeholder_sector :: "string \<Rightarrow> SectorConfig \<Rightarrow> Sector" where
  "create_placeholder_sector sid config =
     \<lparr>name = cfg_name config, weight = cfg_weight config,
      assess_risk = (\<lambda>project_data.
         Inr (placeholder_assess_risk sid (cfg_name config)
                (cfg_risk_factors config) project_data)),
      get_recommendations = placeholder_get_recommendations (cfg_name config)\<rparr>"

text \<open>
  The constructors of the three implemented sector classes, chosen by sector id as the
  table \<open>sector_classes\<close> does.
\<close>

definition sector_classes ::
    "(string list \<Rightarrow> string list) \<Rightarrow> string \<rightharpoonup> (string \<Rightarrow> SectorConfig \<Rightarrow> Sector)" where
  "sector_classes set_list =
     [''network_infrastructure'' \<mapsto> (\<lambda>sid config.
        \<lparr>name = cfg_name config, weight = cfg_weight config,
         assess_risk = (\<lambda>project_data.
            Inr (network_assess_risk sid (cfg_weight config) project_data)),
         get_recommendations = network_get_recommendations\<rparr>),
      ''cybersecurity'' \<mapsto> (\<lambda>sid config.
        \<lparr>name = cfg_name config, weight = cfg_weight config,
         assess_risk = (\<lambda>project_data.
            Inr (cyber_assess_risk set_list sid (cfg_weight config) project_data)),
         get_recommendations = cyber_get_recommendations\<rparr>),
      ''regulatory_compliance'' \<mapsto> (\<lambda>sid config.
        \<lparr>name = cfg_name config, weight = cfg_weight config,
         assess_risk = (\<lambda>project_data.
            Inr (regulatory_assess_risk sid (cfg_weight config) project_data)),
         get_recommendations = regulatory_get_recommendations\<rparr>)]"

definition initialize_sectors ::
    "(string list \<Rightarrow> string list) \<Rightarrow> sectors_config \<Rightarrow> sectors" where
  "initialize_sectors set_list sector_configs =
     fold (\<lambda>(sid, sector_config) self_sectors.
             case sector_classes set_list sid of
               Some cls \<Rightarrow> dict_set sid (cls sid sector_config) self_sectors
             | None \<Rightarrow> dict_set sid
                         (create_placeholder_sector sid sector_config) self_sectors)
          sector_configs []"

definition create_fallback_assessment ::
    "sectors \<Rightarrow> string \<Rightarrow> ProjectData \<Rightarrow> error \<Rightarrow> RiskAssessment option" where
  "create_fallback_assessment self_sectors sid project_data error_msg =
     (case map_of self_sectors sid of
        None \<Rightarrow> None
      | Some sector \<Rightarrow>
          Some \<lparr>sector_id = sid, risk_level = 0.5,
                risk_factors = [''Assessment error occurred''],
                mitigation_strategies =
                  [''Review '' @ name sector @ '' assessment methodology'',
                   ''Conduct manual risk evaluation'',
                   ''Seek expert consultation''],
                confidence = 0.1\<rparr>)"

text \<open>
  The loop of \<open>assess_project_risk\<close>. The state is the dictionary built so far and the
  trace of scorer calls. The fallback is only built for an id found in \<open>self.sectors\<close>,
  where it is never \<open>None\<close>; the branch for \<open>None\<close> leaves the dictionary as it is.
\<close>

fun assess_sectors_loop ::
    "sectors \<Rightarrow> ProjectData \<Rightarrow> string list \<Rightarrow> assessments \<times> trace \<Rightarrow> assessments \<times> trace" where
  "assess_sectors_loop self_sectors project_data [] st = st"
| "assess_sectors_loop self_sectors project_data (sid # rest) (risk_assessments, tr) =
     (case map_of self_sectors sid of
        None \<Rightarrow> assess_sectors_loop self_sectors project_data rest (risk_assessments, tr)
      | Some sector \<Rightarrow>
          (case assess_risk sector project_data of
             Inr risk_assessment \<Rightarrow>
               assess_sectors_loop self_sectors project_data rest
                 (dict_set sid risk_assessment risk_assessments, tr @ [sid])
           | Inl e \<Rightarrow>
               (case create_fallback_assessment self_sectors sid project_data e of
                  Some fallback \<Rightarrow>
                    assess_sectors_loop self_sectors project_data rest
                      (dict_set sid fallback risk_assessments, tr @ [sid])
                | None \<Rightarrow>
                    assess_sectors_loop self_sectors project_data rest
                      (risk_assessments, tr @ [sid]))))"

definition assess_project_risk ::
    "sectors \<Rightarrow> ProjectData \<Rightarrow> string list option \<Rightarrow> trace \<Rightarrow> assessments \<times> trace" where
  "assess_project_risk self_sectors project_data sectors_to_assess tr =
     (let sectors_to_assess =
            (case sectors_to_assess of None \<Rightarrow> map fst self_sectors | Some ids \<Rightarrow> ids)
      in assess_sectors_loop self_sectors project_data sectors_to_assess ([], tr))"

definition calculate_overall_risk :: "sectors \<Rightarrow> assessments \<Rightarrow> real" where
  "calculate_overall_risk self_sectors risk_assessments =
     (if risk_assessments = [] then 0.5
      else
        (let (weighted_risk, total_weight) =
               fold (\<lambda>(sid, assessment) (weighted_risk, total_weight).
                       case map_of self_sectors sid of
                         None \<Rightarrow> (weighted_risk, total_weight)
                       | Some sector \<Rightarrow>
                           (let sector_weight = weight sector
                            in (weighted_risk + risk_level assessment * sector_weight,
                                total_weight + sector_weight)))
                    risk_assessments (0.0, 0.0)
         in if total_weight > 0 then min (weighted_risk / total_weight) 1.0 else 0.5))"

definition get_top_risk_factors ::
    "sectors \<Rightarrow> assessments \<Rightarrow> int \<Rightarrow> (string \<times> string \<times> real) list" where
  "get_top_risk_factors self_sectors risk_assessments limit =
     (let all_risks =
            fold (\<lambda>(sid, assessment) all_risks.
                    case map_of self_sectors sid of
                      None \<Rightarrow> all_risks
                    | Some sector \<Rightarrow>
                        (let sector_name = name sector
                         in fold (\<lambda>risk_factor all_risks.
                                    all_risks @ [(risk_factor, sector_name, risk_level assessment)])
                                 (risk_factors assessment) all_risks))
                 risk_assessments [];
          all_risks = sort_reverse (\<lambda>x. snd (snd x)) all_risks
      in slice_to all_risks limit)"

definition get_priority_recommendations ::
    "sectors \<Rightarrow> assessments \<Rightarrow> int \<Rightarrow> (string \<times> string \<times> real) list" where
  "get_priority_recommendations self_sectors risk_assessments limit =
     (let all_recommendations =
            fold (\<lambda>(sid, assessment) all_recommendations.
                    case map_of self_sectors sid of
                      None \<Rightarrow> all_recommendations
                    | Some sector \<Rightarrow>
                        (let sector_recommendations = get_recommendations sector assessment
                         in fold (\<lambda>recommendation all_recommendations.
                                    all_recommendations
                                    @ [(recommendation, name sector, risk_level assessment)])
                                 sector_recommendations all_recommendations))
                 risk_assessments [];
          all_recommendations = sort_reverse (\<lambda>x. snd (snd x)) all_recommendations
      in slice_to all_recommendations limit)"

definition validate_project_data :: "ProjectData \<Rightarrow> string list" where
  "validate_project_data project_data =
     (if project_id project_data = [] then [''Project ID is required''] else [])
     @ (if description project_data = [] then [''Project description is required''] else [])
     @ (if budget project_data \<le> 0 then [''Project budget must be greater than 0''] else [])
     @ (if timeline_days project_data \<le> 0
        then [''Project timeline must be greater than 0 days''] else [])
     @ (if \<not> (0.0 \<le> complexity_score project_data \<and> complexity_score project_data \<le> 1.0)
        then [''Complexity score must be between 0.0 and 1.0''] else [])
     @ (if technologies project_data = []
        then [''At least one technology should be specified''] else [])
     @ (if stakeholders project_data = []
        then [''At least one stakeholder should be specified''] else [])"

section \<open>Report and recommender system (\<open>core/recommender.py\<close>)\<close>

record RecommendationReport =
  project_data :: ProjectData
  risk_assessments :: assessments
  overall_risk :: real
  top_risks :: "(string \<times> string \<times> real) list"
  priority_recommendations :: "(string \<times> string \<times> real) list"
  risk_category :: string

definition categorize_risk :: "real \<Rightarrow> string" where
  "categorize_risk risk_score =
     (if risk_score \<ge> 0.8 then ''CRITICAL''
      else if risk_score \<ge> 0.6 then ''HIGH''
      else if risk_score \<ge> 0.4 then ''MEDIUM''
      else if risk_score \<ge> 0.2 then ''LOW''
      else ''MINIMAL'')"

text \<open>The constructor \<open>RecommendationReport.__init__\<close>.\<close>

definition RecommendationReport_init ::
    "ProjectData \<Rightarrow> assessments \<Rightarrow> real \<Rightarrow> (string \<times> string \<times> real) list
       \<Rightarrow> (string \<times> string \<times> real) list \<Rightarrow> RecommendationReport" where
  "RecommendationReport_init pd ras overall top_list prio =
     \<lparr>project_data = pd, risk_assessments = ras, overall_risk = overall,
      top_risks = top_list, priority_recommendations = prio,
      risk_category = categorize_risk overall\<rparr>"

text \<open>
  \<open>TelecomRecommenderSystem.__init__\<close>: validate the configuration, then build the risk
  manager. The state that the assessment reads is the manager's sector table.
\<close>

definition TelecomRecommenderSystem_init ::
    "(string list \<Rightarrow> string list) \<Rightarrow> sectors_config \<Rightarrow> error + sectors" where
  "TelecomRecommenderSystem_init set_list sector_configs =
     (case validate_config sector_configs of
        Inl e \<Rightarrow> Inl e
      | Inr ok \<Rightarrow> Inr (initialize_sectors set_list sector_configs))"

definition sector_keywords :: "(string \<times> string list) list" where
  "sector_keywords =
     [(''network_infrastructure'',
         [''network'', ''infrastructure'', ''fiber'', ''tower'', ''equipment'',
          ''hardware'', ''connectivity'', ''transmission'', ''switching'']),
      (''cybersecurity'',
         [''security'', ''cybersecurity'', ''cyber'', ''protection'', ''firewall'',
          ''encryption'', ''threat'', ''vulnerability'', ''incident'']),
      (''regulatory_compliance'',
         [''compliance'', ''regulation'', ''regulatory'', ''license'', ''legal'',
          ''policy'', ''audit'', ''standard'', ''certification'']),
      (''it_software_development'',
         [''software'', ''development'', ''programming'', ''system'', ''integration'',
          ''application'', ''platform'', ''database'', ''api'']),
      (''telecom_services'',
         [''service'', ''voice'', ''data'', ''internet'', ''mobile'', ''broadband'',
          ''telecommunication'', ''subscriber'', ''billing'']),
      (''customer_service_delivery'',
         [''customer'', ''support'', ''service delivery'', ''helpdesk'', ''portal'',
          ''experience'', ''satisfaction'', ''call center'']),
      (''supply_chain_management'',
         [''procurement'', ''vendor'', ''supplier'', ''logistics'', ''inventory'',
          ''sourcing'', ''contract'', ''delivery'']),
      (''marketing_sales'',
         [''marketing'', ''sales'', ''campaign'', ''promotion'', ''advertising'',
          ''customer acquisition'', ''revenue'', ''pricing'']),
      (''human_resources'',
         [''training'', ''staff'', ''employee'', ''recruitment'', ''workforce'',
          ''skills'', ''performance'', ''human resources'']),
      (''research_development'',
         [''research'', ''development'', ''innovation'', ''r&d'', ''prototype'',
          ''pilot'', ''testing'', ''experiment'', ''technology development''])]"

text \<open>
  The body of the loop over \<open>sector_keywords\<close>: the relevance score of one sector,
  one point for each keyword found in the description and one for each keyword found
  in each technology.
\<close>

definition relevance_score :: "string list \<Rightarrow> ProjectData \<Rightarrow> nat" where
  "relevance_score keywords pd =
     (let description_lower = lower (description pd);
          score = fold (\<lambda>keyword score.
                          if sublist keyword description_lower then score + 1 else score)
                       keywords 0
      in fold (\<lambda>tech score.
                 let tech_lower = lower tech
                 in fold (\<lambda>keyword score.
                            if sublist keyword tech_lower then score + 1 else score)
                         keywords score)
              (technologies pd) score)"

text \<open>
  The part of \<open>_identify_relevant_sectors\<close> after the scores are known: sort, take
  the first three, add the later ones that score at least 3, add the mandatory sectors.
\<close>

definition select_sectors :: "(string \<times> nat) list \<Rightarrow> string list" where
  "select_sectors relevant_sectors =
     (let relevant_sectors = sort_reverse snd relevant_sectors;
          result = map fst (take 3 relevant_sectors);
          result = fold (\<lambda>(sid, score) result.
                           if score \<ge> 3 then result @ [sid] else result)
                        (drop 3 relevant_sectors) result;
          mandatory_sectors = [''cybersecurity'', ''regulatory_compliance''];
          result = fold (\<lambda>sector result.
                           if sector \<notin> set result then result @ [sector] else result)
                        mandatory_sectors result
      in result)"

definition identify_relevant_sectors :: "ProjectData \<Rightarrow> string list option \<Rightarrow> string list" where
  "identify_relevant_sectors pd sectors_filter =
     (case sectors_filter of
        Some (sid # ids) \<Rightarrow> sid # ids
      | _ \<Rightarrow>
        (let relevant_sectors =
               fold (\<lambda>(sid, keywords) relevant_sectors.
                       let score = relevance_score keywords pd
                       in if score > 0 then relevant_sectors @ [(sid, score)]
                          else relevant_sectors)
                    sector_keywords []
         in select_sectors relevant_sectors))"

definition assess_project ::
    "sectors \<Rightarrow> ProjectData \<Rightarrow> string list option \<Rightarrow> trace
       \<Rightarrow> (error + RecommendationReport) \<times> trace" where
  "assess_project self_sectors pd sectors_filter tr =
     (let validation_issues = validate_project_data pd
      in if validation_issues \<noteq> []
         then (Inl (ValueError (''Project data validation failed: ''
                                 @ join ''; '' validation_issues)), tr)
         else
           (let relevant_sectors = identify_relevant_sectors pd sectors_filter;
                (ras, tr') = assess_project_risk self_sectors pd (Some relevant_sectors) tr;
                overall = calculate_overall_risk self_sectors ras;
                top_list = get_top_risk_factors self_sectors ras 10;
                prio = get_priority_recommendations self_sectors ras 15
            in (Inr (RecommendationReport_init pd ras overall top_list prio), tr')))"

section \<open>Projects of the test suite and of \<open>create_sample_project\<close>\<close>

text \<open>The valid and the invalid project of \<open>tests/unit/test_recommender.py\<close>.\<close>

definition test_valid_project :: ProjectData where
  "test_valid_project =
     \<lparr>project_id = ''TEST_001'', ProjectData.sector_id = ''test'',
      description = ''Test project'', budget = 1000000, timeline_days = 180,
      complexity_score = 0.5, stakeholders = [''Test Team''],
      technologies = [''Test Tech''], dependencies = [''Test Dep''],
      historical_risks = None\<rparr>"

definition test_invalid_project :: ProjectData where
  "test_invalid_project =
     \<lparr>project_id = [], ProjectData.sector_id = ''test'',
      description = [], budget = 0, timeline_days = 0,
      complexity_score = 1.5, stakeholders = [],
      technologies = [], dependencies = [],
      historical_risks = None\<rparr>"

text \<open>The sample project \<open>network_upgrade\<close>.\<close>

definition sample_network_upgrade :: ProjectData where
  "sample_network_upgrade =
     \<lparr>project_id = ''UAE_NET_2024_001'', ProjectData.sector_id = ''network_infrastructure'',
      description = ''5G network infrastructure upgrade across Dubai and Abu Dhabi, including new cell towers, fiber optic cables, and core network equipment replacement'',
      budget = 75000000, timeline_days = 548, complexity_score = 0.8,
      stakeholders = [''Etisalat'', ''du'', ''UAE Ministry of Energy'', ''Dubai Municipality'',
                      ''Abu Dhabi Government''],
      technologies = [''5G NR'', ''Fiber Optic'', ''Massive MIMO'',
                      ''Network Function Virtualization'', ''Edge Computing''],
      dependencies = [''Spectrum allocation'', ''Site permits'', ''Environmental approvals'',
                      ''Vendor contracts''],
      historical_risks = None\<rparr>"

section \<open>The specification's words, for comparison with the code\<close>

text \<open>
  The pairs (risk level, sector weight) that enter the overall risk: one pair for each
  assessment whose sector id the risk manager knows, in the order of the mapping.
\<close>

definition weighted_terms :: "sectors \<Rightarrow> assessments \<Rightarrow> (real \<times> real) list" where
  "weighted_terms self_sectors ras =
     concat (map (\<lambda>(sid, a). case map_of self_sectors sid of
                                 None \<Rightarrow> []
                               | Some sector \<Rightarrow> [(risk_level a, weight sector)]) ras)"

text \<open>The weighted average of risk levels, each weighted by its sector's weight.\<close>

definition weighted_average :: "(real \<times> real) list \<Rightarrow> real" where
  "weighted_average rws = (\<Sum>(r, w)\<leftarrow>rws. r * w) / (\<Sum>(r, w)\<leftarrow>rws. w)"

text \<open>
  One triple (factor, sector display name, risk level) for each factor label of each
  assessment whose sector id the risk manager knows, in the order of the mapping and,
  within an assessment, of its factor list.
\<close>

definition flattened_risk_factors ::
    "sectors \<Rightarrow> assessments \<Rightarrow> (string \<times> string \<times> real) list" where
  "flattened_risk_factors self_sectors ras =
     concat (map (\<lambda>(sid, a). case map_of self_sectors sid of
                                 None \<Rightarrow> []
                               | Some sector \<Rightarrow>
                                   map (\<lambda>factor. (factor, name sector, risk_level a))
                                       (risk_factors a)) ras)"

definition flattened_recommendations ::
    "sectors \<Rightarrow> assessments \<Rightarrow> (string \<times> string \<times> real) list" where
  "flattened_recommendations self_sectors ras =
     concat (map (\<lambda>(sid, a). case map_of self_sectors sid of
                                 None \<Rightarrow> []
                               | Some sector \<Rightarrow>
                                   map (\<lambda>recommendation.
                                          (recommendation, name sector, risk_level a))
                                       (get_recommendations sector a)) ras)"

text \<open>The relevance score of each of the ten sectors of \<open>sector_keywords\<close>.\<close>

definition sector_scores :: "ProjectData \<Rightarrow> (string \<times> nat) list" where
  "sector_scores pd =
     map (\<lambda>(sid, keywords). (sid, relevance_score keywords pd)) sector_keywords"

text \<open>The number of keywords that occur in a text.\<close>

definition keyword_hits :: "string list \<Rightarrow> string \<Rightarrow> nat" where
  "keyword_hits keywords s = length (filter (\<lambda>keyword. sublist keyword (lower s)) keywords)"

section \<open>A configuration to run the system on\<close>

text \<open>
  Modelled from the spec: the configuration file \<open>sectors_config.yaml\<close> is not among
  the sources. This stand-in has the ten sector ids that \<open>tests/unit/test_config.py\<close>
  expects, in that order, a weight of one tenth each, and for each sector its display
  name and three factor labels. It serves as a concrete input only.
\<close>

definition example_sector :: "string \<Rightarrow> string list \<Rightarrow> SectorConfig" where
  "example_sector nm factors =
     \<lparr>cfg_name = nm, cfg_description = nm @ '' risks'', cfg_risk_factors = factors,
      cfg_weight = 0.1\<rparr>"

definition example_config :: sectors_config where
  "example_config =
     [(''network_infrastructure'', example_sector ''Network Infrastructure''
         [''Equipment failure'', ''Infrastructure damage'', ''Network congestion'']),
      (''it_software_development'', example_sector ''IT Software Development''
         [''Software defects'', ''Integration failures'', ''Schedule delays'']),
      (''telecom_services'', example_sector ''Telecom Services''
         [''Service outages'', ''Quality degradation'', ''Billing errors'']),
      (''customer_service_delivery'', example_sector ''Customer Service Delivery''
         [''Customer dissatisfaction'', ''Support delays'', ''Channel failures'']),
      (''regulatory_compliance'', example_sector ''Regulatory Compliance''
         [''Regulatory violations'', ''License compliance'', ''Policy non-compliance'']),
      (''supply_chain_management'', example_sector ''Supply Chain Management''
         [''Supplier failure'', ''Delivery delays'', ''Cost overruns'']),
      (''cybersecurity'', example_sector ''Cybersecurity''
         [''Cyber attacks'', ''Data breaches'', ''Insider threats'']),
      (''marketing_sales'', example_sector ''Marketing Sales''
         [''Market shifts'', ''Revenue shortfall'', ''Brand damage'']),
      (''human_resources'', example_sector ''Human Resources''
         [''Skill shortages'', ''Staff turnover'', ''Training gaps'']),
      (''research_development'', example_sector ''Research Development''
         [''Research failure'', ''Technology risk'', ''Funding gaps''])]"

text \<open>A sector object whose scorer always raises, and a table that holds it.\<close>

definition failing_sector :: Sector where
  "failing_sector =
     \<lparr>name = ''Failing'', weight = 0.5,
      assess_risk = (\<lambda>pd. Inl (Exception ''scorer failed'')),
      get_recommendations = (\<lambda>a. [])\<rparr>"

text \<open>Assessments written by hand, to run the aggregation functions on.\<close>

definition example_assessment :: "string \<Rightarrow> real \<Rightarrow> string list \<Rightarrow> RiskAssessment" where
  "example_assessment sid r factors =
     \<lparr>sector_id = sid, risk_level = r, risk_factors = factors,
      mitigation_strategies = [], confidence = 0.8\<rparr>"

text \<open>The example system with one more sector, whose scorer always raises.\<close>

definition example_failing_table :: sectors where
  "example_failing_table =
     (''failing'', failing_sector) # initialize_sectors remdups example_config"

text \<open>The valid test project with a recorded history of risks.\<close>

definition test_project_with_history :: ProjectData where
  "test_project_with_history =
     test_valid_project\<lparr>historical_risks := Some [''Compliance audit finding'']\<rparr>"

section \<open>Dictionaries, sorting and joining: basic facts\<close>

lemma map_of_dict_set: "map_of (dict_set k v d) = (map_of d)(k \<mapsto> v)"
  by (induction d) (auto simp: fun_eq_iff)

lemma keys_dict_set: "fst ` set (dict_set k v d) = insert k (fst ` set d)"
  by (induction k v d rule: dict_set.induct) (simp_all add: insert_commute)

lemma distinct_dict_set: "distinct (map fst d) \<Longrightarrow> distinct (map fst (dict_set k v d))"
  by (induction d) (auto simp: keys_dict_set)

lemma dict_set_in: "(k', v') \<in> set (dict_set k v d) \<Longrightarrow> (k' = k \<and> v' = v) \<or> (k', v') \<in> set d"
  by (induction d) (auto split: if_splits)

lemma dict_set_nonempty: "dict_set k v d \<noteq> []"
  by (induction k v d rule: dict_set.induct) auto

lemma sort_reverse_Nil: "sort_reverse f [] = []"
  by (simp add: sort_reverse_def)

lemma sort_reverse_Cons: "sort_reverse f (x # xs) = insort_reverse f x (sort_reverse f xs)"
  by (simp add: sort_reverse_def)

lemma mset_insort_reverse: "mset (insort_reverse f x xs) = add_mset x (mset xs)"
  by (induction xs) auto

lemma mset_sort_reverse: "mset (sort_reverse f xs) = mset xs"
  by (induction xs) (simp_all add: sort_reverse_Nil sort_reverse_Cons mset_insort_reverse)

lemma set_sort_reverse: "set (sort_reverse f xs) = set xs"
  by (metis mset_sort_reverse set_mset_mset)

lemma length_sort_reverse: "length (sort_reverse f xs) = length xs"
  by (metis mset_sort_reverse size_mset)

lemma set_insort_reverse: "set (insort_reverse f x xs) = insert x (set xs)"
  by (induction xs) auto

lemma sorted_insort_reverse:
  "sorted_wrt (\<lambda>a b. f b \<le> f a) xs \<Longrightarrow> sorted_wrt (\<lambda>a b. f b \<le> f a) (insort_reverse f x xs)"
  by (induction xs) (auto simp: set_insort_reverse)

lemma sorted_sort_reverse: "sorted_wrt (\<lambda>a b. f b \<le> f a) (sort_reverse f xs)"
  by (induction xs) (simp_all add: sort_reverse_Nil sort_reverse_Cons sorted_insort_reverse)

lemma filter_insort_reverse:
  "sorted_wrt (\<lambda>a b. f b \<le> f a) xs \<Longrightarrow>
   filter (\<lambda>y. f y = k) (insort_reverse f x xs) =
     (if f x = k then x # filter (\<lambda>y. f y = k) xs else filter (\<lambda>y. f y = k) xs)"
  by (induction xs) (auto simp: set_insort_reverse)

lemma sort_reverse_stable:
  "filter (\<lambda>y. f y = k) (sort_reverse f xs) = filter (\<lambda>y. f y = k) xs"
proof (induction xs)
  case Nil
  then show ?case by (simp add: sort_reverse_Nil)
next
  case (Cons x xs)
  have "sorted_wrt (\<lambda>a b. f b \<le> f a) (sort_reverse f xs)"
    by (rule sorted_sort_reverse)
  then show ?case
    using Cons by (simp add: sort_reverse_Cons filter_insort_reverse)
qed

lemma slice_to_nonneg: "0 \<le> n \<Longrightarrow> slice_to xs n = take (nat n) xs"
  by (simp add: slice_to_def)

lemma sublist_join: "x \<in> set xs \<Longrightarrow> sublist x (join sep xs)"
proof (induction sep xs rule: join.induct)
  case (1 sep)
  then show ?case by simp
next
  case (2 sep y)
  then show ?case by simp
next
  case (3 sep y z zs)
  show ?case
  proof (cases "x = y")
    case True
    then show ?thesis by (simp add: sublist_append)
  next
    case False
    with 3 have "sublist x (join sep (z # zs))" by simp
    then have "sublist x (sep @ join sep (z # zs))" by (simp add: sublist_append)
    then show ?thesis by (simp add: sublist_append)
  qed
qed

section \<open>The trace of scorer calls\<close>

text \<open>
  The loop of \<open>assess_project_risk\<close> appends to the trace exactly the requested ids
  that the risk manager knows, in the order requested.
\<close>

lemma trace_of_assess_sectors_loop:
  "snd (assess_sectors_loop m p ids (ra, tr)) = tr @ filter (\<lambda>sid. map_of m sid \<noteq> None) ids"
  by (induction ids arbitrary: ra tr) (auto split: option.splits sum.splits)

lemma sublist_issue_in_message:
  "issue \<in> set issues \<Longrightarrow> sublist issue (pre @ join sep issues)"
  using sublist_join[of issue issues sep] by (simp add: sublist_append)

section \<open>The base risk score\<close>

text \<open>
  Claim C7. For every project, \<open>calculate_base_risk_score\<close> is the weighted sum
  \<open>0.25 * min(budget / 1,000,000, 1) + 0.25 * min(timeline_days / 365, 1)
  + 0.35 * complexity_score + 0.15 * min(dependency_count / 10, 1)\<close>, clamped to the
  interval from 0 to 1; in particular it lies in that interval.
\<close>

theorem base_risk_score_formula:
  "calculate_base_risk_score p =
     max 0 (min 1 (0.25 * min (budget p / 1000000) 1
                   + 0.25 * min (real_of_int (timeline_days p) / 365) 1
                   + 0.35 * complexity_score p
                   + 0.15 * min (real (length (dependencies p)) / 10) 1))
   \<and> 0 \<le> calculate_base_risk_score p \<and> calculate_base_risk_score p \<le> 1"
  by (simp add: calculate_base_risk_score_def clip_def Let_def min_def max_def)

section \<open>Validation comes first\<close>

text \<open>
  Claim C2. For every project with an empty id, an empty description, a budget or a
  timeline that is not positive, a complexity outside the unit interval, no technology
  or no stakeholder, \<open>assess_project\<close> raises the \<open>ValueError\<close> whose message is the
  fixed prefix followed by all the issues joined with a semicolon: the message of each
  violated field occurs in it. The trace of scorer calls is returned unchanged, so no
  scorer has run; this holds for every sector table and every filter.
\<close>

theorem validation_error_lists_every_violation:
  assumes "project_id p = [] \<or> description p = [] \<or> budget p \<le> 0 \<or> timeline_days p \<le> 0
           \<or> complexity_score p < 0 \<or> 1 < complexity_score p
           \<or> technologies p = [] \<or> stakeholders p = []"
  shows "\<exists>msg. assess_project m p f tr = (Inl (ValueError msg), tr)
           \<and> msg = ''Project data validation failed: '' @ join ''; '' (validate_project_data p)
           \<and> (project_id p = [] \<longrightarrow> sublist ''Project ID is required'' msg)
           \<and> (description p = [] \<longrightarrow> sublist ''Project description is required'' msg)
           \<and> (budget p \<le> 0 \<longrightarrow> sublist ''Project budget must be greater than 0'' msg)
           \<and> (timeline_days p \<le> 0
                \<longrightarrow> sublist ''Project timeline must be greater than 0 days'' msg)
           \<and> (complexity_score p < 0 \<or> 1 < complexity_score p
                \<longrightarrow> sublist ''Complexity score must be between 0.0 and 1.0'' msg)
           \<and> (technologies p = []
                \<longrightarrow> sublist ''At least one technology should be specified'' msg)
           \<and> (stakeholders p = []
                \<longrightarrow> sublist ''At least one stakeholder should be specified'' msg)"
proof -
  let ?issues = "validate_project_data p"
  let ?msg = "''Project data validation failed: '' @ join ''; '' ?issues"
  have nonempty: "?issues \<noteq> []"
    using assms by (auto simp: validate_project_data_def)
  have fails: "assess_project m p f tr = (Inl (ValueError ?msg), tr)"
    using nonempty by (simp add: assess_project_def Let_def)
  have i1: "project_id p = [] \<Longrightarrow> ''Project ID is required'' \<in> set ?issues"
    by (simp add: validate_project_data_def)
  have i2: "description p = [] \<Longrightarrow> ''Project description is required'' \<in> set ?issues"
    by (simp add: validate_project_data_def)
  have i3: "budget p \<le> 0 \<Longrightarrow> ''Project budget must be greater than 0'' \<in> set ?issues"
    by (simp add: validate_project_data_def)
  have i4: "timeline_days p \<le> 0
            \<Longrightarrow> ''Project timeline must be greater than 0 days'' \<in> set ?issues"
    by (simp add: validate_project_data_def)
  have i5: "complexity_score p < 0 \<or> 1 < complexity_score p
            \<Longrightarrow> ''Complexity score must be between 0.0 and 1.0'' \<in> set ?issues"
    by (auto simp: validate_project_data_def)
  have i6: "technologies p = []
            \<Longrightarrow> ''At least one technology should be specified'' \<in> set ?issues"
    by (simp add: validate_project_data_def)
  have i7: "stakeholders p = []
            \<Longrightarrow> ''At least one stakeholder should be specified'' \<in> set ?issues"
    by (simp add: validate_project_data_def)
  show ?thesis
    using fails i1 i2 i3 i4 i5 i6 i7 sublist_issue_in_message by blast
qed

theorem validation_error_lists_every_violation_witness:
  "\<exists>msg. assess_project [] test_invalid_project None [] = (Inl (ValueError msg), [])
      \<and> sublist ''Project ID is required'' msg
      \<and> sublist ''Project description is required'' msg
      \<and> sublist ''Project budget must be greater than 0'' msg
      \<and> sublist ''Project timeline must be greater than 0 days'' msg
      \<and> sublist ''Complexity score must be between 0.0 and 1.0'' msg
      \<and> sublist ''At least one technology should be specified'' msg
      \<and> sublist ''At least one stakeholder should be specified'' msg"
  using validation_error_lists_every_violation [of test_invalid_project "[]" None "[]"]
  by (simp add: test_invalid_project_def)

section \<open>Loops that only add\<close>

lemma fold_invariant:
  "P a \<Longrightarrow> (\<And>x acc. x \<in> set xs \<Longrightarrow> P acc \<Longrightarrow> P (f x acc)) \<Longrightarrow> P (fold f xs a)"
  by (induction xs arbitrary: a) auto

lemma fold_real_grows:
  fixes a :: real
  assumes "\<And>x acc. x \<in> set xs \<Longrightarrow> acc \<le> f x acc"
  shows "a \<le> fold f xs a"
  using assms
proof (induction xs arbitrary: a)
  case Nil
  then show ?case by simp
next
  case (Cons x xs)
  have "a \<le> f x a" using Cons.prems by simp
  also have "f x a \<le> fold f xs (f x a)" using Cons.prems by (intro Cons.IH) simp
  finally show ?case by simp
qed

section \<open>The sub-scores of the three sector classes are not negative\<close>

lemma technology_age_risks_values:
  "the (technology_age_risks ''legacy'') = 0.8"
  "the (technology_age_risks ''emerging'') = 0.6"
  "the (technology_age_risks ''current'') = 0.2"
  by (simp_all add: technology_age_risks_def)

lemma network_infrastructure_risk_nonneg:
  assumes "0 \<le> complexity_score p"
  shows "0 \<le> network_assess_infrastructure_risk p"
proof -
  let ?inner = "\<lambda>tech_lower. (\<lambda>(component, risk_multiplier) risk_score.
                    if sublist (replace_underscore component) tech_lower \<or> sublist component tech_lower
                    then risk_score + risk_multiplier else (risk_score::real))"
  have inner: "acc \<le> fold (?inner t) infrastructure_components acc" for t acc
    by (rule fold_real_grows) (auto simp: infrastructure_components_def)
  have "0 \<le> fold (\<lambda>tech risk_score. fold (?inner (lower tech)) infrastructure_components risk_score)
              (technologies p) 0"
    by (rule fold_real_grows) (rule inner)
  then show ?thesis
    using assms by (simp add: network_assess_infrastructure_risk_def Let_def del: fold.simps)
qed


lemma fold_bonus_nonneg:
  fixes a c :: real
  assumes "0 \<le> c" "0 \<le> a"
  shows "0 \<le> fold (\<lambda>x acc. if P x then acc + c else acc) xs a"
proof -
  have "a \<le> fold (\<lambda>x acc. if P x then acc + c else acc) xs a"
    by (rule fold_real_grows) (use assms in auto)
  with assms show ?thesis by simp
qed

lemma network_environmental_risk_nonneg:
  assumes "0 < timeline_days p"
  shows "0 \<le> network_assess_environmental_risk p"
proof -
  have "0 \<le> fold (\<lambda>keyword outdoor_risk.
                    if sublist keyword (lower (description p))
                    then outdoor_risk + 0.2 else outdoor_risk)
                 [''tower'', ''outdoor'', ''external'', ''field'', ''installation''] (0::real)"
    by (rule fold_bonus_nonneg) simp_all
  moreover have "0 \<le> min (real_of_int (timeline_days p) / 365) 2" using assms by simp
  ultimately show ?thesis
    unfolding network_assess_environmental_risk_def Let_def by (simp del: fold.simps)
qed

lemma network_technology_risk_nonneg: "0 \<le> network_assess_technology_risk p"
proof -
  have "0 \<le> fold (\<lambda>tech technology_risk.
                    let tech_lower = lower tech
                    in if list_ex (\<lambda>word. sublist word tech_lower)
                            [''legacy'', ''old'', ''deprecated'']
                       then technology_risk + the (technology_age_risks ''legacy'')
                       else if list_ex (\<lambda>word. sublist word tech_lower)
                            [''new'', ''emerging'', ''beta'', ''cutting-edge'']
                       then technology_risk + the (technology_age_risks ''emerging'')
                       else if list_ex (\<lambda>word. sublist word tech_lower)
                            [''5g'', ''ai'', ''iot'', ''edge'']
                       then technology_risk + the (technology_age_risks ''emerging'')
                       else technology_risk + the (technology_age_risks ''current''))
                 (technologies p) (0::real)"
    by (rule fold_real_grows) (simp add: Let_def technology_age_risks_values)
  then show ?thesis
    unfolding network_assess_technology_risk_def by (simp del: fold.simps)
qed

lemma network_capacity_risk_nonneg: "0 \<le> network_assess_capacity_risk p"
  unfolding network_assess_capacity_risk_def Let_def
  by (simp add: fold_bonus_nonneg del: fold.simps)

lemma cyber_threat_landscape_nonneg: "0 \<le> cyber_assess_threat_landscape p"
proof -
  have "0 \<le> fold (\<lambda>keyword threat_score.
                    if sublist keyword (lower (description p))
                    then threat_score + 0.2 else threat_score)
                 [''internet-facing'', ''public'', ''external'', ''customer-facing''] (0.5::real)"
    by (rule fold_bonus_nonneg) simp_all
  then show ?thesis
    unfolding cyber_assess_threat_landscape_def Let_def by (simp del: fold.simps)
qed

lemma cyber_compliance_risk_nonneg: "0 \<le> cyber_assess_compliance_risk p"
  unfolding cyber_assess_compliance_risk_def Let_def
  by (simp add: fold_bonus_nonneg del: fold.simps)

lemma cyber_technology_security_risk_nonneg: "0 \<le> cyber_assess_technology_security_risk p"
proof -
  let ?inner = "\<lambda>tech_lower. (\<lambda>(risk_tech, risk_level_of_tech) tech_risk.
                    if sublist (replace_underscore risk_tech) tech_lower \<or> sublist risk_tech tech_lower
                    then tech_risk + risk_level_of_tech else (tech_risk::real))"
  have inner: "acc \<le> fold (?inner t) technology_risks acc" for t acc
    by (rule fold_real_grows) (auto simp: technology_risks_def)
  have "0 \<le> fold (\<lambda>tech tech_risk. fold (?inner (lower tech)) technology_risks tech_risk)
              (technologies p) 0"
    by (rule fold_real_grows) (rule inner)
  then show ?thesis
    unfolding cyber_assess_technology_security_risk_def Let_def
    by (simp add: fold_bonus_nonneg del: fold.simps)
qed

lemma cyber_data_protection_risk_nonneg: "0 \<le> cyber_assess_data_protection_risk p"
proof -
  have "0 \<le> fold (\<lambda>keyword data_risk.
                    if sublist keyword (lower (description p))
                    then data_risk + 0.2 else data_risk)
                 [''database'', ''customer data'', ''personal information'', ''analytics'',
                  ''reporting''] (0.3::real)"
    by (rule fold_bonus_nonneg) simp_all
  then show ?thesis
    unfolding cyber_assess_data_protection_risk_def Let_def by (simp del: fold.simps)
qed

lemma cyber_security_controls_le_one: "cyber_assess_security_controls p \<le> 1"
  unfolding cyber_assess_security_controls_def Let_def
  by (simp split: prod.splits del: fold.simps)

section \<open>What validation guarantees\<close>

lemma valid_project_fields:
  assumes "validate_project_data p = []"
  shows "project_id p \<noteq> []" and "description p \<noteq> []" and "0 < budget p"
    and "0 < timeline_days p" and "0 \<le> complexity_score p" and "complexity_score p \<le> 1"
    and "technologies p \<noteq> []" and "stakeholders p \<noteq> []"
proof -
  have "project_id p = [] \<Longrightarrow> validate_project_data p \<noteq> []"
    by (simp add: validate_project_data_def)
  with assms show "project_id p \<noteq> []" by blast
  have "description p = [] \<Longrightarrow> validate_project_data p \<noteq> []"
    by (simp add: validate_project_data_def)
  with assms show "description p \<noteq> []" by blast
  have "budget p \<le> 0 \<Longrightarrow> validate_project_data p \<noteq> []"
    by (simp add: validate_project_data_def)
  with assms show "0 < budget p" by force
  have "timeline_days p \<le> 0 \<Longrightarrow> validate_project_data p \<noteq> []"
    by (simp add: validate_project_data_def)
  with assms show "0 < timeline_days p" by force
  have "\<not> 0 \<le> complexity_score p \<Longrightarrow> validate_project_data p \<noteq> []"
    by (simp add: validate_project_data_def)
  with assms show "0 \<le> complexity_score p" by blast
  have "\<not> complexity_score p \<le> 1 \<Longrightarrow> validate_project_data p \<noteq> []"
    by (simp add: validate_project_data_def)
  with assms show "complexity_score p \<le> 1" by blast
  have "technologies p = [] \<Longrightarrow> validate_project_data p \<noteq> []"
    by (simp add: validate_project_data_def)
  with assms show "technologies p \<noteq> []" by blast
  have "stakeholders p = [] \<Longrightarrow> validate_project_data p \<noteq> []"
    by (simp add: validate_project_data_def)
  with assms show "stakeholders p \<noteq> []" by blast
qed


lemma regulatory_frameworks_levels_nonneg:
  "(framework, framework_risk_level, keywords) \<in> set regulatory_frameworks
   \<Longrightarrow> 0 \<le> framework_risk_level"
  by (auto simp: regulatory_frameworks_def)

lemma regulatory_framework_risk_nonneg: "0 \<le> regulatory_assess_regulatory_framework_risk p"
proof -
  let ?step = "\<lambda>(framework, framework_risk_level, keywords) (framework_risk, applicable_frameworks).
                 let framework_applies =
                       list_ex (\<lambda>keyword. sublist keyword (lower (description p))) keywords
                 in if framework_applies
                    then (framework_risk + framework_risk_level, applicable_frameworks + 1)
                    else (framework_risk :: real, applicable_frameworks :: nat)"
  have "(\<lambda>(r, n). 0 \<le> r) (fold ?step regulatory_frameworks (0, 0))"
  proof (rule fold_invariant)
    show "(\<lambda>(r, n). 0 \<le> r) (0::real, 0::nat)" by simp
  next
    fix x :: "string \<times> real \<times> string list" and acc :: "real \<times> nat"
    assume x: "x \<in> set regulatory_frameworks" and acc: "(\<lambda>(r, n). 0 \<le> r) acc"
    obtain fw rl kws where xeq: "x = (fw, rl, kws)" by (cases x) auto
    obtain r n where acceq: "acc = (r, n)" by (cases acc) auto
    have "0 \<le> rl" using x xeq regulatory_frameworks_levels_nonneg by blast
    then show "(\<lambda>(r, n). 0 \<le> r) (?step x acc)"
      using acc by (simp add: xeq acceq Let_def)
  qed
  then show ?thesis
    unfolding regulatory_assess_regulatory_framework_risk_def Let_def
    by (simp split: prod.splits del: fold.simps)
qed


lemma regulatory_license_compliance_risk_nonneg:
  "0 \<le> regulatory_assess_license_compliance_risk p"
  unfolding regulatory_assess_license_compliance_risk_def Let_def
  by (simp add: fold_bonus_nonneg del: fold.simps)

lemma regulatory_data_protection_risk_nonneg:
  "0 \<le> regulatory_assess_data_protection_risk p"
  unfolding regulatory_assess_data_protection_risk_def Let_def
  by (simp add: fold_bonus_nonneg add_nonneg_nonneg del: fold.simps)

lemma regulatory_audit_readiness_risk_nonneg:
  "0 \<le> regulatory_assess_audit_readiness_risk p"
  unfolding regulatory_assess_audit_readiness_risk_def Let_def
  by (simp add: fold_bonus_nonneg del: fold.simps)

lemma regulatory_policy_compliance_risk_nonneg:
  "0 \<le> regulatory_assess_policy_compliance_risk p"
  unfolding regulatory_assess_policy_compliance_risk_def Let_def
  by (simp split: option.splits)

lemma base_risk_score_nonneg: "0 \<le> calculate_base_risk_score p"
  by (simp add: calculate_base_risk_score_def clip_def Let_def)

lemma scaled_risk_nonneg:
  fixes total w :: real
  shows "0 \<le> total \<Longrightarrow> 0 < w \<Longrightarrow> 0 \<le> min (total * w * 10) 1 \<and> min (total * w * 10) 1 \<le> 1"
  by simp

lemma network_risk_level_bounds:
  assumes "validate_project_data p = []" "0 < w"
  shows "0 \<le> risk_level (network_assess_risk sid w p) \<and> risk_level (network_assess_risk sid w p) \<le> 1"
proof -
  have c: "0 \<le> complexity_score p" and t: "0 < timeline_days p"
    using assms(1) by (rule valid_project_fields)+
  have "0 \<le> calculate_base_risk_score p * 0.3 + network_assess_infrastructure_risk p * 0.25
             + network_assess_environmental_risk p * 0.2 + network_assess_technology_risk p * 0.15
             + network_assess_capacity_risk p * 0.1"
    using base_risk_score_nonneg[of p] network_infrastructure_risk_nonneg[OF c]
      network_environmental_risk_nonneg[OF t] network_technology_risk_nonneg[of p]
      network_capacity_risk_nonneg[of p] by simp
  then show ?thesis
    using assms(2) by (simp add: network_assess_risk_def Let_def)
qed

lemma cyber_risk_level_bounds:
  assumes "0 < w"
  shows "0 \<le> risk_level (cyber_assess_risk sl sid w p) \<and> risk_level (cyber_assess_risk sl sid w p) \<le> 1"
proof -
  have total: "0 \<le> calculate_base_risk_score p * 0.2 + cyber_assess_threat_landscape p * 0.25
             + cyber_assess_compliance_risk p * 0.2 + cyber_assess_technology_security_risk p * 0.2
             + cyber_assess_data_protection_risk p * 0.15"
    using base_risk_score_nonneg[of p] cyber_threat_landscape_nonneg[of p]
      cyber_compliance_risk_nonneg[of p] cyber_technology_security_risk_nonneg[of p]
      cyber_data_protection_risk_nonneg[of p] by simp
  have "0 \<le> 1 - cyber_assess_security_controls p * 0.5"
    using cyber_security_controls_le_one[of p] by simp
  with total have "0 \<le> (calculate_base_risk_score p * 0.2 + cyber_assess_threat_landscape p * 0.25
             + cyber_assess_compliance_risk p * 0.2 + cyber_assess_technology_security_risk p * 0.2
             + cyber_assess_data_protection_risk p * 0.15) * (1 - cyber_assess_security_controls p * 0.5)"
    by (rule mult_nonneg_nonneg)
  then show ?thesis
    using assms by (simp add: cyber_assess_risk_def Let_def)
qed

lemma regulatory_risk_level_bounds:
  assumes "0 < w"
  shows "0 \<le> risk_level (regulatory_assess_risk sid w p) \<and> risk_level (regulatory_assess_risk sid w p) \<le> 1"
proof -
  have "0 \<le> calculate_base_risk_score p * 0.15 + regulatory_assess_regulatory_framework_risk p * 0.25
             + regulatory_assess_license_compliance_risk p * 0.2
             + regulatory_assess_data_protection_risk p * 0.2
             + regulatory_assess_audit_readiness_risk p * 0.1
             + regulatory_assess_policy_compliance_risk p * 0.1"
    using base_risk_score_nonneg[of p] regulatory_framework_risk_nonneg[of p]
      regulatory_license_compliance_risk_nonneg[of p] regulatory_data_protection_risk_nonneg[of p]
      regulatory_audit_readiness_risk_nonneg[of p] regulatory_policy_compliance_risk_nonneg[of p]
    by simp
  then show ?thesis
    using assms by (simp add: regulatory_assess_risk_def Let_def)
qed

lemma placeholder_risk_level_bounds:
  assumes "validate_project_data p = []"
  shows "0 \<le> risk_level (placeholder_assess_risk sid nm fs p)
         \<and> risk_level (placeholder_assess_risk sid nm fs p) \<le> 1"
proof -
  have "0 \<le> complexity_score p"
    using assms by (rule valid_project_fields)
  then show ?thesis by (simp add: placeholder_assess_risk_def)
qed

section \<open>The overall risk as a fold and as a weighted average\<close>

lemma overall_risk_fold:
  "fold (\<lambda>(sid, assessment) (weighted_risk, total_weight).
           case map_of m sid of
             None \<Rightarrow> (weighted_risk, total_weight)
           | Some sector \<Rightarrow>
               (let sector_weight = weight sector
                in (weighted_risk + risk_level assessment * sector_weight,
                    total_weight + sector_weight)))
        ras (wr, tw)
   = (wr + (\<Sum>(r, w)\<leftarrow>weighted_terms m ras. r * w),
      tw + (\<Sum>(r, w)\<leftarrow>weighted_terms m ras. w))"
  by (induction ras arbitrary: wr tw)
     (auto simp: weighted_terms_def Let_def split: option.splits)

lemma calculate_overall_risk_eq:
  "calculate_overall_risk m ras =
     (if 0 < (\<Sum>(r, w)\<leftarrow>weighted_terms m ras. w)
      then min (weighted_average (weighted_terms m ras)) 1 else 1 / 2)"
proof (cases "ras = []")
  case True
  then show ?thesis by (simp add: calculate_overall_risk_def weighted_terms_def)
next
  case False
  then show ?thesis
    by (simp add: calculate_overall_risk_def overall_risk_fold weighted_average_def
        del: fold.simps)
qed

lemma weighted_terms_unknown:
  "\<forall>sid \<in> fst ` set ras. map_of m sid = None \<Longrightarrow> weighted_terms m ras = []"
  by (induction ras) (auto simp: weighted_terms_def)

lemma weighted_terms_Nil: "weighted_terms m [] = []"
  by (simp add: weighted_terms_def)

lemma weighted_terms_Cons:
  "weighted_terms m ((sid, a) # ras) =
     (case map_of m sid of None \<Rightarrow> [] | Some s \<Rightarrow> [(risk_level a, weight s)])
     @ weighted_terms m ras"
  by (simp add: weighted_terms_def)

lemma weighted_terms_lookup:
  "(r, w) \<in> set (weighted_terms m ras) \<Longrightarrow> \<exists>sid s. map_of m sid = Some s \<and> w = weight s"
proof (induction ras)
  case Nil
  then show ?case by (simp add: weighted_terms_Nil)
next
  case (Cons x ras)
  obtain sid a where x: "x = (sid, a)" by (cases x) auto
  show ?case
  proof (cases "(r, w) \<in> set (weighted_terms m ras)")
    case True
    then show ?thesis by (rule Cons.IH)
  next
    case False
    show ?thesis
    proof (cases "map_of m sid")
      case None
      with Cons.prems x False show ?thesis by (simp add: weighted_terms_Cons)
    next
      case (Some s)
      with Cons.prems x False have "w = weight s" by (simp add: weighted_terms_Cons)
      with Some show ?thesis by blast
    qed
  qed
qed

lemma weighted_terms_weights:
  assumes "(r, w) \<in> set (weighted_terms m ras)"
  shows "\<exists>s \<in> snd ` set m. w = weight s"
proof -
  obtain sid s where "map_of m sid = Some s" and w: "w = weight s"
    using weighted_terms_lookup[OF assms] by blast
  then have "(sid, s) \<in> set m" by (simp add: map_of_SomeD)
  then have "s \<in> snd ` set m" by force
  with w show ?thesis by blast
qed

lemma weighted_terms_nonempty:
  "\<exists>sid \<in> fst ` set ras. map_of m sid \<noteq> None \<Longrightarrow> weighted_terms m ras \<noteq> []"
  by (induction ras) (auto simp: weighted_terms_def split: option.splits)

lemma sum_list_pos_weights:
  fixes rws :: "(real \<times> real) list"
  assumes "rws \<noteq> []" "\<forall>(r, w) \<in> set rws. 0 < w"
  shows "0 < (\<Sum>(r, w)\<leftarrow>rws. w)"
  using assms
proof (induction rws)
  case Nil
  then show ?case by simp
next
  case (Cons x xs)
  obtain r w where x: "x = (r, w)" by (cases x) auto
  have w: "0 < w" using Cons.prems x by auto
  show ?case
  proof (cases "xs = []")
    case True
    then show ?thesis using w x by simp
  next
    case False
    then have "0 < (\<Sum>(r, w)\<leftarrow>xs. w)" using Cons by auto
    then show ?thesis using w x by simp
  qed
qed

section \<open>The sector table built from a configuration\<close>

lemma initialize_sectors_step:
  "map_of (fold (\<lambda>(sid, sector_config) self_sectors.
             case sector_classes sl sid of
               Some cls \<Rightarrow> dict_set sid (cls sid sector_config) self_sectors
             | None \<Rightarrow> dict_set sid (create_placeholder_sector sid sector_config) self_sectors)
          cfg acc) sid
   = (case map_of (rev cfg) sid of
        Some c \<Rightarrow> Some (case sector_classes sl sid of
                          Some cls \<Rightarrow> cls sid c
                        | None \<Rightarrow> create_placeholder_sector sid c)
      | None \<Rightarrow> map_of acc sid)"
proof (induction cfg arbitrary: acc)
  case Nil
  then show ?case by simp
next
  case (Cons x cfg)
  obtain k c where x: "x = (k, c)" by (cases x) auto
  show ?case
    by (simp add: x Cons.IH map_of_dict_set map_add_def split: option.splits)
qed

lemma map_of_initialize_sectors:
  "map_of (initialize_sectors sl cfg) sid
   = map_option (\<lambda>c. case sector_classes sl sid of
                         Some cls \<Rightarrow> cls sid c
                       | None \<Rightarrow> create_placeholder_sector sid c)
                (map_of (rev cfg) sid)"
  unfolding initialize_sectors_def
  by (simp add: initialize_sectors_step split: option.splits del: fold.simps)

lemma distinct_initialize_sectors: "distinct (map fst (initialize_sectors sl cfg))"
proof -
  have "distinct (map fst acc) \<Longrightarrow>
        distinct (map fst (fold (\<lambda>(sid, sector_config) self_sectors.
             case sector_classes sl sid of
               Some cls \<Rightarrow> dict_set sid (cls sid sector_config) self_sectors
             | None \<Rightarrow> dict_set sid (create_placeholder_sector sid sector_config) self_sectors)
          cfg acc))" for acc
    by (induction cfg arbitrary: acc) (auto simp: distinct_dict_set split: option.splits)
  then show ?thesis by (simp add: initialize_sectors_def del: fold.simps)
qed

lemma initialize_sectors_member:
  assumes "(sid, s) \<in> set (initialize_sectors sl cfg)"
  shows "\<exists>c. (sid, c) \<in> set cfg
             \<and> s = (case sector_classes sl sid of
                      Some cls \<Rightarrow> cls sid c
                    | None \<Rightarrow> create_placeholder_sector sid c)"
proof -
  have "map_of (initialize_sectors sl cfg) sid = Some s"
    using assms distinct_initialize_sectors by simp
  then obtain c where c: "map_of (rev cfg) sid = Some c"
    and s: "s = (case sector_classes sl sid of
                      Some cls \<Rightarrow> cls sid c
                    | None \<Rightarrow> create_placeholder_sector sid c)"
    by (auto simp: map_of_initialize_sectors)
  from c have "(sid, c) \<in> set cfg" by (auto dest: map_of_SomeD)
  with s show ?thesis by blast
qed

lemma sector_classes_cases:
  "sector_classes sl sid = None \<or>
   (\<exists>cls. sector_classes sl sid = Some cls \<and>
      (\<forall>c. name (cls sid c) = cfg_name c \<and> weight (cls sid c) = cfg_weight c))"
  by (simp add: sector_classes_def)

lemma initialize_sectors_weight:
  assumes "(sid, s) \<in> set (initialize_sectors sl cfg)"
  shows "\<exists>c. (sid, c) \<in> set cfg \<and> weight s = cfg_weight c \<and> name s = cfg_name c"
proof -
  obtain c where c: "(sid, c) \<in> set cfg"
    and s: "s = (case sector_classes sl sid of
                      Some cls \<Rightarrow> cls sid c
                    | None \<Rightarrow> create_placeholder_sector sid c)"
    using initialize_sectors_member[OF assms] by blast
  have "weight s = cfg_weight c \<and> name s = cfg_name c"
    using sector_classes_cases[of sl sid] s
    by (auto simp: create_placeholder_sector_def)
  with c show ?thesis by blast
qed

section \<open>The example configuration\<close>

lemma example_config_weights: "(sid, c) \<in> set example_config \<Longrightarrow> cfg_weight c = 0.1"
  by (auto simp: example_config_def example_sector_def)

lemma example_sectors_weights:
  "s \<in> snd ` set (initialize_sectors sl example_config) \<Longrightarrow> weight s = 0.1"
  using initialize_sectors_weight example_config_weights by fastforce

lemma example_sectors_cybersecurity:
  "map_of (initialize_sectors sl example_config) ''cybersecurity'' \<noteq> None"
  by (simp add: map_of_initialize_sectors example_config_def)

lemma example_sectors_weight_of:
  "map_of (initialize_sectors sl example_config) sid = Some s \<Longrightarrow> weight s = 0.1"
  using example_sectors_weights[of s sl] by (force dest: map_of_SomeD)


section \<open>The overall risk\<close>

text \<open>
  Claim C4. For every mapping of sector ids to assessments, \<open>calculate_overall_risk\<close>
  returns the average of the risk levels of the assessments whose sector is configured,
  each weighted by its sector's weight, and at most 1. It returns 0.5 when the
  mapping is empty and when no assessed id is configured (the total weight is then 0).
  The first conjunct is the code's exact rule, for any weights: the clamped average
  when the total weight is positive, 0.5 otherwise. With positive sector weights, as
  the data model has them, a single configured id makes the total positive.
\<close>

theorem overall_risk_weighted_average:
  "calculate_overall_risk m ras =
     (if 0 < (\<Sum>(r, w)\<leftarrow>weighted_terms m ras. w)
      then min (weighted_average (weighted_terms m ras)) 1 else 1 / 2)
   \<and> calculate_overall_risk m ras \<le> 1
   \<and> (ras = [] \<longrightarrow> calculate_overall_risk m ras = 1 / 2)
   \<and> ((\<forall>sid \<in> fst ` set ras. map_of m sid = None)
        \<longrightarrow> (\<Sum>(r, w)\<leftarrow>weighted_terms m ras. w) = 0 \<and> calculate_overall_risk m ras = 1 / 2)
   \<and> ((\<forall>s \<in> snd ` set m. 0 < weight s) \<and> (\<exists>sid \<in> fst ` set ras. map_of m sid \<noteq> None)
        \<longrightarrow> calculate_overall_risk m ras = min (weighted_average (weighted_terms m ras)) 1)"
proof (intro conjI impI)
  show eq: "calculate_overall_risk m ras =
     (if 0 < (\<Sum>(r, w)\<leftarrow>weighted_terms m ras. w)
      then min (weighted_average (weighted_terms m ras)) 1 else 1 / 2)"
    by (rule calculate_overall_risk_eq)
  show "calculate_overall_risk m ras \<le> 1"
    by (simp add: eq)
  show "calculate_overall_risk m ras = 1 / 2" if "ras = []"
    using that by (simp add: calculate_overall_risk_def)
  show "(\<Sum>(r, w)\<leftarrow>weighted_terms m ras. w) = 0"
    if "\<forall>sid \<in> fst ` set ras. map_of m sid = None"
    using weighted_terms_unknown[OF that] by simp
  show "calculate_overall_risk m ras = 1 / 2"
    if "\<forall>sid \<in> fst ` set ras. map_of m sid = None"
    using weighted_terms_unknown[OF that] by (simp add: eq)
  show "calculate_overall_risk m ras = min (weighted_average (weighted_terms m ras)) 1"
    if h: "(\<forall>s \<in> snd ` set m. 0 < weight s) \<and> (\<exists>sid \<in> fst ` set ras. map_of m sid \<noteq> None)"
  proof -
    have ne: "weighted_terms m ras \<noteq> []"
      using h weighted_terms_nonempty by blast
    have "\<forall>(r, w) \<in> set (weighted_terms m ras). 0 < w"
      using h weighted_terms_weights by fastforce
    with ne have "0 < (\<Sum>(r, w)\<leftarrow>weighted_terms m ras. w)"
      by (rule sum_list_pos_weights)
    then show ?thesis by (simp add: eq)
  qed
qed

theorem overall_risk_weighted_average_witness:
  "calculate_overall_risk (initialize_sectors remdups example_config) [] = 1 / 2
   \<and> calculate_overall_risk (initialize_sectors remdups example_config)
        [(''unknown_sector'', example_assessment ''unknown_sector'' 0.9 [])] = 1 / 2
   \<and> calculate_overall_risk (initialize_sectors remdups example_config)
        [(''cybersecurity'', example_assessment ''cybersecurity'' 0.9 []),
         (''marketing_sales'', example_assessment ''marketing_sales'' 0.3 [])] = 0.6"
proof -
  let ?m = "initialize_sectors remdups example_config"
  let ?r1 = "[(''unknown_sector'', example_assessment ''unknown_sector'' 0.9 [])]"
  let ?r2 = "[(''cybersecurity'', example_assessment ''cybersecurity'' 0.9 []),
              (''marketing_sales'', example_assessment ''marketing_sales'' 0.3 [])]"
  have pos: "\<forall>s \<in> snd ` set ?m. 0 < weight s"
  proof
    fix s assume "s \<in> snd ` set ?m"
    then have "weight s = 0.1" by (rule example_sectors_weights)
    then show "0 < weight s" by simp
  qed
  have unknown: "\<forall>sid \<in> fst ` set ?r1. map_of ?m sid = None"
    by (simp add: map_of_initialize_sectors example_config_def)
  have known: "\<exists>sid \<in> fst ` set ?r2. map_of ?m sid \<noteq> None"
    using example_sectors_cybersecurity[of remdups] by simp
  obtain s1 where s1: "map_of ?m ''cybersecurity'' = Some s1"
    using example_sectors_cybersecurity[of remdups] by blast
  obtain s2 where s2: "map_of ?m ''marketing_sales'' = Some s2"
    by (simp add: map_of_initialize_sectors example_config_def)
  have terms: "weighted_terms ?m ?r2 = [(0.9, 0.1), (0.3, 0.1)]"
    using s1 s2 example_sectors_weight_of[OF s1] example_sectors_weight_of[OF s2]
    by (simp add: weighted_terms_def example_assessment_def)
  have "calculate_overall_risk ?m ?r2 = min (weighted_average (weighted_terms ?m ?r2)) 1"
    using overall_risk_weighted_average[of ?m ?r2] pos known by blast
  then have third: "calculate_overall_risk ?m ?r2 = 0.6"
    by (simp add: terms weighted_average_def)
  show ?thesis
    using overall_risk_weighted_average[of ?m "[]"] overall_risk_weighted_average[of ?m ?r1]
      unknown third by blast
qed



end
